theory Spec2Isabelle
  imports Complex_Main
begin

section \<open>Platform functions used by the media service\<close>

text \<open>
  Strings are byte lists (UTF-8). The three library functions the service calls on strings
  are written out here after their ECMAScript / Node (POSIX) definitions.

  \<^item> \<open>toLowerCase\<close>: on ASCII it maps \<open>A..Z\<close> to \<open>a..z\<close>. Bytes above 127 are left alone.
    The result is only ever compared with the ASCII words of \<open>BROWSER_COMPATIBLE_AUDIO\<close>,
    and the only non-ASCII code points whose lower case contains an ASCII letter yield
    \<open>k\<close> (the Kelvin sign) or \<open>i\<close> with a combining dot: no word of the list contains
    \<open>k\<close> or a combining mark, so membership in the list is the same.
  \<^item> \<open>encodeURIComponent\<close>: every byte outside \<open>A-Z a-z 0-9 - _ . ! ~ * ' ( )\<close> becomes
    \<open>%XX\<close> with upper-case hex digits.
  \<^item> \<open>path.extname\<close>: the text from the last dot of the last path component (trailing
    slashes ignored) to its end; empty when that component has no dot, when its only dot is
    its first character, or when it is \<open>..\<close>.
\<close>

definition lower_char :: "char \<Rightarrow> char" where
  "lower_char c =
     (case map_of (zip ''ABCDEFGHIJKLMNOPQRSTUVWXYZ'' ''abcdefghijklmnopqrstuvwxyz'') c of
        None \<Rightarrow> c
      | Some d \<Rightarrow> d)"

definition toLowerCase :: "string \<Rightarrow> string" where
  "toLowerCase s = map lower_char s"

definition uri_unreserved :: "char list" where
  "uri_unreserved =
     ''ABCDEFGHIJKLMNOPQRSTUVWXYZabcdefghijklmnopqrstuvwxyz0123456789-_.!~*()'' @ [CHR 0x27]"

definition hexDigit :: "nat \<Rightarrow> char" where
  "hexDigit n = ''0123456789ABCDEF'' ! (n mod 16)"

definition encodeChar :: "char \<Rightarrow> string" where
  "encodeChar c =
     (if c \<in> set uri_unreserved then [c]
      else [CHR ''%'', hexDigit ((of_char c :: nat) div 16), hexDigit ((of_char c :: nat) mod 16)])"

definition encodeURIComponent :: "string \<Rightarrow> string" where
  "encodeURIComponent s = concat (map encodeChar s)"

text \<open>The characters that can occur in the result of \<open>encodeURIComponent\<close>.\<close>

definition uri_component_chars :: "char set" where
  "uri_component_chars = set uri_unreserved \<union> set ''%0123456789ABCDEF''"

definition extname :: "string \<Rightarrow> string" where
  "extname p =
     (let trimmed = rev (dropWhile (\<lambda>c. c = CHR ''/'') (rev p));
          base = rev (takeWhile (\<lambda>c. c \<noteq> CHR ''/'') (rev trimmed));
          ext = rev (takeWhile (\<lambda>c. c \<noteq> CHR ''.'') (rev base));
          stem = take (length base - length ext - 1) base
      in if CHR ''.'' \<notin> set base \<or> stem = [] \<or> base = ''..'' then []
         else CHR ''.'' # ext)"

text \<open>\<open>String(n)\<close> for an integer, and \<open>padStart(2, '0')\<close>.\<close>

fun showNat :: "nat \<Rightarrow> string" where
  "showNat n =
     (if n < 10 then [''0123456789'' ! n]
      else showNat (n div 10) @ [''0123456789'' ! (n mod 10)])"

definition showInt :: "int \<Rightarrow> string" where
  "showInt i = (if i < 0 then CHR ''-'' # showNat (nat (- i)) else showNat (nat i))"

definition padStart2 :: "string \<Rightarrow> string" where
  "padStart2 s = replicate (2 - length s) CHR ''0'' @ s"

text \<open>
  \<open>startsWith('/')\<close>, and the operator \<open>x || d\<close> on an optional string: \<open>undefined\<close>
  and the empty string are both falsy.
\<close>

definition startsWithSlash :: "string \<Rightarrow> bool" where
  "startsWithSlash s = (case s of [] \<Rightarrow> False | c # _ \<Rightarrow> c = CHR ''/'')"

definition orStr :: "string option \<Rightarrow> string \<Rightarrow> string" where
  "orStr x d = (case x of None \<Rightarrow> d | Some s \<Rightarrow> if s = [] then d else s)"

definition orOpt :: "string option \<Rightarrow> string option \<Rightarrow> string option" where
  "orOpt x y = (case x of None \<Rightarrow> y | Some s \<Rightarrow> if s = [] then y else Some s)"

section \<open>Data model of \<open>mediaService.ts\<close>\<close>

text \<open>
  The interfaces of \<open>mediaService.ts\<close> as records. A field name that occurs in more than
  one interface carries a prefix (\<open>st_\<close> for subtitle tracks, \<open>at_\<close> for audio tracks,
  \<open>fmt_\<close> for the format, \<open>tag_\<close> for the tags, \<open>mi_\<close> for the media summary); an
  optional field is an \<open>option\<close>; numbers that hold integers are \<open>int\<close>.
\<close>

datatype codec_type = Video | Audio | Subtitle

record MediaTags =
  tag_language :: "string option"
  tag_title :: "string option"
  tag_handler_name :: "string option"

text \<open>
  \<open>MediaStream\<close> is the interface the service reads. The objects themselves come from
  \<open>JSON.parse\<close> of the probe tool's output and are only cast to the interface, so they may
  carry more fields than it declares (the \<open>more\<close> part of the record scheme); the service
  is defined for every such extension and cannot read it.
\<close>

record MediaStream =
  index :: int
  codec_name :: string
  codec_type :: codec_type
  codec_long_name :: "string option"
  width :: "int option"
  height :: "int option"
  channels :: "int option"
  channel_layout :: "string option"
  sample_rate :: "string option"
  bit_rate :: "string option"
  tags :: "MediaTags option"

record MediaFormat =
  filename :: string
  format_name :: string
  format_long_name :: string
  fmt_duration :: string
  fmt_size :: string
  fmt_bit_rate :: string

record 'z MediaInfo =
  format :: MediaFormat
  streams :: "'z MediaStream_scheme list"

record SubtitleTrack =
  st_id :: int
  st_streamIndex :: int
  st_language :: string
  st_languageCode :: string
  st_displayTitle :: string
  st_format :: string

record AudioTrack =
  at_id :: int
  at_streamIndex :: int
  at_language :: string
  at_languageCode :: string
  at_displayTitle :: string
  at_codec :: string
  at_channels :: int
  at_selected :: bool

datatype content_type = movie | episode

record PlaybackMediaInfo =
  mi_width :: int
  mi_height :: int
  videoCodec :: string
  audioCodec :: string
  container :: string

text \<open>
  The subtitle list is a list of \<open>SubtitleTrack\<close> schemes: the server builds plain tracks,
  the browser-side service adds a \<open>url\<close> field to each.
\<close>

record 'u PlaybackInfo =
  found :: bool
  title :: string
  type :: content_type
  filePath :: string
  fileSize :: int
  duration :: int
  mediaInfo :: PlaybackMediaInfo
  needsTranscode :: bool
  streamUrl :: string
  subtitles :: "'u SubtitleTrack_scheme list"
  audioTracks :: "AudioTrack list"

definition BROWSER_COMPATIBLE_AUDIO :: "string list" where
  "BROWSER_COMPATIBLE_AUDIO =
     [''aac'', ''mp3'', ''opus'', ''vorbis'', ''flac'', ''pcm_s16le'', ''pcm_s24le'']"

section \<open>The file prober\<close>

text \<open>
  What the host gives the service: the file system test, one run of the probe tool,
  \<open>JSON.parse\<close>, and the two number parsers (\<open>None\<close> for \<open>NaN\<close>). \<open>parseFloat\<close> is taken
  over the reals: the rounding of doubles is not modelled.

  A run of the probe tool ends in one of three ways. \<open>spawn\<close> may return a child without
  its output streams (it does when the spawn fails for lack of processes or descriptors):
  then \<open>ffprobe.stdout.on\<close> throws inside the promise executor and the promise rejects.
  Otherwise the handlers are registered and either the \<open>error\<close> event fires, or \<open>close\<close>
  fires with an exit code (\<open>None\<close> when killed by a signal) after the standard output has
  been collected.

  \<open>JSON.parse\<close> throws (\<open>None\<close>) or yields a value, which \<open>probeFile\<close> resolves after an
  unchecked cast to \<open>MediaInfo\<close>. Of the value the service later reads the properties
  \<open>streams\<close> and \<open>format\<close>, in this order, so a value is one of: a falsy value (\<open>null\<close>,
  \<open>false\<close>, \<open>0\<close>, the empty string); a truthy value without a \<open>streams\<close> list (such as
  \<open>{}\<close>); a value with a \<open>streams\<close> list and no \<open>format\<close>; a value of the declared
  shape. Reading \<open>find\<close> of a missing \<open>streams\<close>, or \<open>duration\<close> of a missing \<open>format\<close>,
  is a \<open>TypeError\<close>. The streams of a list are taken to be objects of the declared
  shape.
\<close>

datatype exn = Rejected string | TypeError

datatype ffprobe_run = NoStdio | SpawnError string | Closed "int option" string

datatype 'z probe_value =
    Falsy
  | Shapeless
  | StreamsOnly "'z MediaStream_scheme list"
  | Info "'z MediaInfo"

record 'z host =
  existsSync :: "string \<Rightarrow> bool"
  spawn_ffprobe :: "string \<Rightarrow> ffprobe_run"
  JSON_parse :: "string \<Rightarrow> 'z probe_value option"
  parseFloat :: "string \<Rightarrow> real option"
  parseInt :: "string \<Rightarrow> int option"

definition probeFile :: "'z host \<Rightarrow> string \<Rightarrow> exn + 'z probe_value option" where
  "probeFile h fp =
     (if \<not> existsSync h fp then Inr None
      else case spawn_ffprobe h fp of
             NoStdio \<Rightarrow> Inl TypeError
           | SpawnError err \<Rightarrow> Inr None
           | Closed code stdout \<Rightarrow>
               if code \<noteq> Some 0 then Inr None
               else (case JSON_parse h stdout of
                       None \<Rightarrow> Inr None
                     | Some info \<Rightarrow> Inr (Some info)))"

section \<open>Building the playback info\<close>

definition tagsLanguage :: "'z MediaStream_scheme \<Rightarrow> string option" where
  "tagsLanguage s = (case tags s of None \<Rightarrow> None | Some t \<Rightarrow> tag_language t)"

definition tagsTitle :: "'z MediaStream_scheme \<Rightarrow> string option" where
  "tagsTitle s = (case tags s of None \<Rightarrow> None | Some t \<Rightarrow> tag_title t)"

definition subtitleTrackOf :: "nat \<times> 'z MediaStream_scheme \<Rightarrow> SubtitleTrack" where
  "subtitleTrackOf p =
     (case p of (idx, s) \<Rightarrow>
        \<lparr> st_id = index s,
          st_streamIndex = int idx,
          st_language = orStr (tagsLanguage s) ''Unknown'',
          st_languageCode = orStr (tagsLanguage s) ''und'',
          st_displayTitle =
            orStr (orOpt (tagsTitle s) (tagsLanguage s)) (''Subtitle '' @ showNat (idx + 1)),
          st_format = codec_name s \<rparr>)"

definition audioTrackOf :: "nat \<times> 'z MediaStream_scheme \<Rightarrow> AudioTrack" where
  "audioTrackOf p =
     (case p of (i, s) \<Rightarrow>
        \<lparr> at_id = index s,
          at_streamIndex = int i,
          at_language = orStr (tagsLanguage s) ''Unknown'',
          at_languageCode = orStr (tagsLanguage s) ''und'',
          at_displayTitle =
            orStr (orOpt (tagsTitle s) (tagsLanguage s)) (''Audio '' @ showNat (i + 1)),
          at_codec = codec_name s,
          at_channels = (case channels s of None \<Rightarrow> 2 | Some c \<Rightarrow> if c = 0 then 2 else c),
          at_selected = (i = 0) \<rparr>)"

definition buildSubtitles :: "'z MediaStream_scheme list \<Rightarrow> SubtitleTrack list" where
  "buildSubtitles ss =
     map subtitleTrackOf (enumerate 0 (filter (\<lambda>s. codec_type s = Subtitle) ss))"

definition buildAudioTracks :: "'z MediaStream_scheme list \<Rightarrow> AudioTrack list" where
  "buildAudioTracks ss =
     map audioTrackOf (enumerate 0 (filter (\<lambda>s. codec_type s = Audio) ss))"

definition primaryAudioCodec :: "'z MediaStream_scheme list \<Rightarrow> string" where
  "primaryAudioCodec ss =
     (case find (\<lambda>s. codec_type s = Audio) ss of
        None \<Rightarrow> ''unknown''
      | Some a \<Rightarrow> if codec_name a = [] then ''unknown'' else codec_name a)"

definition buildPlaybackInfo ::
  "'z host \<Rightarrow> string \<Rightarrow> string \<Rightarrow> content_type \<Rightarrow> exn + unit PlaybackInfo option" where
  "buildPlaybackInfo h fp ttl ty =
     (case probeFile h fp of
        Inl e \<Rightarrow> Inl e
      | Inr None \<Rightarrow> Inr None
      | Inr (Some Falsy) \<Rightarrow> Inr None
      | Inr (Some Shapeless) \<Rightarrow> Inl TypeError
      | Inr (Some (StreamsOnly ss)) \<Rightarrow>
          (case find (\<lambda>s. codec_type s = Video) ss of
             None \<Rightarrow> Inr None
           | Some videoStream \<Rightarrow> Inl TypeError)
      | Inr (Some (Info info)) \<Rightarrow>
          (case find (\<lambda>s. codec_type s = Video) (streams info) of
             None \<Rightarrow> Inr None
           | Some videoStream \<Rightarrow>
               (let subs = buildSubtitles (streams info);
                    tracks = buildAudioTracks (streams info);
                    aCodec = primaryAudioCodec (streams info);
                    transcode = (toLowerCase aCodec \<notin> set BROWSER_COMPATIBLE_AUDIO);
                    durationSec =
                      (case parseFloat h (fmt_duration (format info)) of
                         None \<Rightarrow> 0 | Some d \<Rightarrow> d);
                    durationMs = \<lfloor>durationSec * 1000\<rfloor>;
                    fSize =
                      (case parseInt h (fmt_size (format info)) of None \<Rightarrow> 0 | Some n \<Rightarrow> n);
                    encodedPath = encodeURIComponent fp;
                    url = (if transcode then ''/api/media/transcode/'' @ encodedPath
                           else ''/api/media/stream/'' @ encodedPath)
                in Inr (Some \<lparr> found = True,
                          title = ttl,
                          type = ty,
                          filePath = fp,
                          fileSize = fSize,
                          duration = durationMs,
                          mediaInfo =
                            \<lparr> mi_width = (case width videoStream of None \<Rightarrow> 0 | Some w \<Rightarrow> w),
                              mi_height = (case height videoStream of None \<Rightarrow> 0 | Some x \<Rightarrow> x),
                              videoCodec = codec_name videoStream,
                              audioCodec = aCodec,
                              container =
                                (if drop 1 (extname fp) = [] then ''mkv''
                                 else drop 1 (extname fp)) \<rparr>,
                          needsTranscode = transcode,
                          streamUrl = url,
                          subtitles = subs,
                          audioTracks = tracks \<rparr>))))"

section \<open>The library manager\<close>

text \<open>
  Modelled from the spec: \<open>radarrService\<close> and \<open>sonarrService\<close> (section 6, the library
  manager) are imported by \<open>mediaService.ts\<close> but their code is not at hand. Their calls are
  parameters of the model, and their replies are records holding the fields that
  \<open>mediaService.ts\<close> reads. Every call is awaited without a handler, so a call may also
  reject; the rejection then leaves the entry point as an exception (\<open>Inl\<close>). Within one
  request a call answers the same arguments the same way.
\<close>

record MovieFile =
  mf_path :: string

record RadarrMovie =
  movie_title :: string
  movie_hasFile :: bool
  movieFile :: "MovieFile option"

record SeriesLookup =
  tvdbId :: int

record SonarrSeries =
  series_id :: int
  series_title :: string

record SonarrEpisode =
  seasonNumber :: int
  episodeNumber :: int
  ep_hasFile :: bool
  episodeFileId :: int
  ep_title :: string

record EpisodeFile =
  ef_path :: string

record FetchResponse =
  ok :: bool
  json :: "exn + EpisodeFile"

record library =
  getMovieByTmdbId :: "int \<Rightarrow> exn + RadarrMovie option"
  getSeries :: "exn + SonarrSeries list"
  lookupSeriesByTmdbId :: "int \<Rightarrow> exn + SeriesLookup option"
  getSeriesByTvdbId :: "int \<Rightarrow> exn + SonarrSeries option"
  getEpisodes :: "int \<Rightarrow> exn + SonarrEpisode list"
  fetchEpisodeFile :: "int \<Rightarrow> exn + FetchResponse"

text \<open>
  Each entry point returns the calls it made to the library manager, in order, next to
  its result.
\<close>

datatype call =
    GetMovieByTmdbId int
  | GetSeries
  | LookupSeriesByTmdbId int
  | GetSeriesByTvdbId int
  | GetEpisodes int
  | FetchEpisodeFile int

type_synonym 'a traced = "call list \<times> (exn + 'a)"

abbreviation calls :: "'a traced \<Rightarrow> call list" where
  "calls r \<equiv> fst r"

abbreviation outcome :: "'a traced \<Rightarrow> exn + 'a" where
  "outcome r \<equiv> snd r"

section \<open>The two entry points\<close>

definition getMoviePlayback ::
  "'z host \<Rightarrow> library \<Rightarrow> int \<Rightarrow> unit PlaybackInfo option traced" where
  "getMoviePlayback h lib tmdbId =
     (case getMovieByTmdbId lib tmdbId of
        Inl e \<Rightarrow> ([GetMovieByTmdbId tmdbId], Inl e)
      | Inr None \<Rightarrow> ([GetMovieByTmdbId tmdbId], Inr None)
      | Inr (Some m) \<Rightarrow>
          (case movieFile m of
             None \<Rightarrow> ([GetMovieByTmdbId tmdbId], Inr None)
           | Some f \<Rightarrow>
               (if \<not> movie_hasFile m \<or> mf_path f = []
                then ([GetMovieByTmdbId tmdbId], Inr None)
                else ([GetMovieByTmdbId tmdbId],
                      buildPlaybackInfo h (mf_path f) (movie_title m) movie))))"

text \<open>
  The loop \<open>for (const s of allSeries)\<close>: every round asks the cross-reference lookup for
  the requested id; a usable answer fetches the series and breaks.
\<close>

fun seriesLoop :: "library \<Rightarrow> int \<Rightarrow> SonarrSeries list \<Rightarrow> SonarrSeries option traced" where
  "seriesLoop lib tmdbId [] = ([], Inr None)"
| "seriesLoop lib tmdbId (s # rest) =
     (case lookupSeriesByTmdbId lib tmdbId of
        Inl e \<Rightarrow> ([LookupSeriesByTmdbId tmdbId], Inl e)
      | Inr None \<Rightarrow>
          (case seriesLoop lib tmdbId rest of
             (cs, r) \<Rightarrow> (LookupSeriesByTmdbId tmdbId # cs, r))
      | Inr (Some lookup) \<Rightarrow>
          (if tvdbId lookup \<noteq> 0
           then (case getSeriesByTvdbId lib (tvdbId lookup) of
                   Inl e \<Rightarrow>
                     ([LookupSeriesByTmdbId tmdbId, GetSeriesByTvdbId (tvdbId lookup)], Inl e)
                 | Inr series \<Rightarrow>
                     ([LookupSeriesByTmdbId tmdbId, GetSeriesByTvdbId (tvdbId lookup)],
                      Inr series))
           else (case seriesLoop lib tmdbId rest of
                   (cs, r) \<Rightarrow> (LookupSeriesByTmdbId tmdbId # cs, r))))"

definition getEpisodeFilePath :: "library \<Rightarrow> int \<Rightarrow> int \<Rightarrow> call list \<times> string option" where
  "getEpisodeFilePath lib seriesId fileId =
     ([FetchEpisodeFile fileId],
      (case fetchEpisodeFile lib fileId of
         Inl e \<Rightarrow> None
       | Inr response \<Rightarrow>
           if \<not> ok response then None
           else (case json response of Inl e \<Rightarrow> None | Inr d \<Rightarrow> Some (ef_path d))))"

definition episodeTitle :: "SonarrSeries \<Rightarrow> int \<Rightarrow> int \<Rightarrow> SonarrEpisode \<Rightarrow> string" where
  "episodeTitle series season ep target =
     series_title series @ '' - S'' @ padStart2 (showInt season) @ ''E''
       @ padStart2 (showInt ep) @ '' - '' @ ep_title target"

definition getEpisodePlayback ::
  "'z host \<Rightarrow> library \<Rightarrow> int \<Rightarrow> int \<Rightarrow> int \<Rightarrow> unit PlaybackInfo option traced" where
  "getEpisodePlayback h lib tmdbId season ep =
     (case getSeries lib of
        Inl e \<Rightarrow> ([GetSeries], Inl e)
      | Inr allSeries \<Rightarrow>
          (case seriesLoop lib tmdbId allSeries of
             (cs, Inl e) \<Rightarrow> (GetSeries # cs, Inl e)
           | (cs, Inr None) \<Rightarrow> (GetSeries # cs, Inr None)
           | (cs, Inr (Some series)) \<Rightarrow>
               (case getEpisodes lib (series_id series) of
                  Inl e \<Rightarrow> (GetSeries # cs @ [GetEpisodes (series_id series)], Inl e)
                | Inr episodes \<Rightarrow>
                    (case find (\<lambda>x. seasonNumber x = season \<and> episodeNumber x = ep) episodes of
                       None \<Rightarrow> (GetSeries # cs @ [GetEpisodes (series_id series)], Inr None)
                     | Some target \<Rightarrow>
                         (if \<not> ep_hasFile target \<or> episodeFileId target = 0
                          then (GetSeries # cs @ [GetEpisodes (series_id series)], Inr None)
                          else
                            (case getEpisodeFilePath lib (series_id series)
                                    (episodeFileId target) of
                               (fs, None) \<Rightarrow>
                                 (GetSeries # cs @ [GetEpisodes (series_id series)] @ fs,
                                  Inr None)
                             | (fs, Some episodeFile) \<Rightarrow>
                                 (if episodeFile = []
                                  then (GetSeries # cs @ [GetEpisodes (series_id series)] @ fs,
                                        Inr None)
                                  else (GetSeries # cs @ [GetEpisodes (series_id series)] @ fs,
                                        buildPlaybackInfo h episodeFile
                                          (episodeTitle series season ep target)
                                          episode))))))))"

section \<open>The browser-side service\<close>

text \<open>
  \<open>getMoviePlayback\<close> of the browser-side media service, applied to the reply of the
  server: the stream URL is made absolute, and every subtitle track gets a \<open>url\<close>. The
  base URL and the stored token are parameters.
\<close>

record ClientSubtitleTrack = SubtitleTrack +
  url :: "string option"

definition authParamOf :: "string option \<Rightarrow> string" where
  "authParamOf token =
     (case token of
        None \<Rightarrow> []
      | Some t \<Rightarrow> if t = [] then [] else ''?token='' @ encodeURIComponent t)"

definition withSubtitleUrl :: "string \<Rightarrow> SubtitleTrack \<Rightarrow> ClientSubtitleTrack" where
  "withSubtitleUrl fp sub =
     \<lparr> st_id = st_id sub,
       st_streamIndex = st_streamIndex sub,
       st_language = st_language sub,
       st_languageCode = st_languageCode sub,
       st_displayTitle = st_displayTitle sub,
       st_format = st_format sub,
       url = Some (''/api/media/subtitle/''
                     @ encodeURIComponent (showInt (st_streamIndex sub) @ '':'' @ fp)) \<rparr>"

definition absolutizeSubtitle ::
  "string \<Rightarrow> string \<Rightarrow> ClientSubtitleTrack \<Rightarrow> ClientSubtitleTrack" where
  "absolutizeSubtitle apiBase authParam sub =
     sub \<lparr> url :=
             (case url sub of
                None \<Rightarrow> None
              | Some u \<Rightarrow> if startsWithSlash u then Some (apiBase @ u @ authParam)
                          else Some u) \<rparr>"

definition client_getMoviePlayback ::
  "string \<Rightarrow> string option \<Rightarrow> unit PlaybackInfo \<Rightarrow> \<lparr>url :: string option\<rparr> PlaybackInfo option"
  where
  "client_getMoviePlayback apiBase token dat =
     (if \<not> found dat then None
      else
        (let authParam = authParamOf token
         in Some \<lparr> found = found dat,
                   title = title dat,
                   type = type dat,
                   filePath = filePath dat,
                   fileSize = fileSize dat,
                   duration = duration dat,
                   mediaInfo = mediaInfo dat,
                   needsTranscode = needsTranscode dat,
                   streamUrl =
                     (if startsWithSlash (streamUrl dat)
                      then apiBase @ streamUrl dat @ authParam
                      else streamUrl dat),
                   subtitles =
                     map (absolutizeSubtitle apiBase authParam)
                       (map (withSubtitleUrl (filePath dat)) (subtitles dat)),
                   audioTracks = audioTracks dat \<rparr>))"

section \<open>Conditions named by the specification\<close>



section \<open>Sample inputs\<close>

text \<open>
  Concrete probe results, hosts and library replies on which the theorems below are
  evaluated. \<open>ProbedStream\<close> is a probed stream object as the probe tool prints it, with
  the container's default-track mark that the \<open>MediaStream\<close> interface leaves out.
\<close>

record ProbedStream = MediaStream +
  disposition_default :: bool

definition mkStream :: "int \<Rightarrow> codec_type \<Rightarrow> string \<Rightarrow> MediaStream" where
  "mkStream i ty c =
     \<lparr> index = i, codec_name = c, codec_type = ty, codec_long_name = None,
       width = None, height = None, channels = None, channel_layout = None,
       sample_rate = None, bit_rate = None, tags = None \<rparr>"

definition mkProbed :: "int \<Rightarrow> codec_type \<Rightarrow> string \<Rightarrow> bool \<Rightarrow> ProbedStream" where
  "mkProbed i ty c d =
     \<lparr> index = i, codec_name = c, codec_type = ty, codec_long_name = None,
       width = None, height = None, channels = None, channel_layout = None,
       sample_rate = None, bit_rate = None, tags = None, disposition_default = d \<rparr>"

definition langTags :: "string \<Rightarrow> MediaTags option" where
  "langTags l = Some \<lparr> tag_language = Some l, tag_title = None, tag_handler_name = None \<rparr>"

definition sampleFormat :: MediaFormat where
  "sampleFormat =
     \<lparr> filename = ''Fight Club.mkv'', format_name = ''matroska,webm'',
       format_long_name = ''Matroska / WebM'', fmt_duration = ''8340.5'',
       fmt_size = ''4294967296'', fmt_bit_rate = ''4120000'' \<rparr>"

definition fightClubPath :: string where
  "fightClubPath = ''/data/movies/Fight Club (1999)/Fight Club.mkv''"

definition fightClubInfo :: "unit MediaInfo" where
  "fightClubInfo =
     \<lparr> format = sampleFormat,
       streams =
         [ (mkStream 0 Video ''h264'') \<lparr> width := Some 1920, height := Some 1080 \<rparr>,
           (mkStream 1 Audio ''eac3'') \<lparr> channels := Some 6, tags := langTags ''eng'' \<rparr>,
           (mkStream 2 Subtitle ''subrip'') \<lparr> tags := langTags ''eng'' \<rparr>,
           (mkStream 3 Subtitle ''subrip'') \<lparr> tags := langTags ''fre'' \<rparr> ] \<rparr>"

definition gappyInfo :: "unit MediaInfo" where
  "gappyInfo =
     \<lparr> format = sampleFormat,
       streams =
         [ mkStream 0 Video ''hevc'', mkStream 2 Audio ''AAC'',
           mkStream 4 Subtitle ''ass'', mkStream 7 Subtitle ''subrip'' ] \<rparr>"

definition silentInfo :: "unit MediaInfo" where
  "silentInfo = \<lparr> format = sampleFormat, streams = [mkStream 0 Video ''h264''] \<rparr>"


definition twoAudioInfo :: "\<lparr>disposition_default :: bool\<rparr> MediaInfo" where
  "twoAudioInfo =
     \<lparr> format = sampleFormat,
       streams =
         [ mkProbed 0 Video ''h264'' True,
           mkProbed 1 Audio ''aac'' False,
           mkProbed 2 Audio ''ac3'' True ] \<rparr>"

definition hostOf :: "'z MediaInfo \<Rightarrow> 'z host" where
  "hostOf info =
     \<lparr> existsSync = (\<lambda>p. True),
       spawn_ffprobe = (\<lambda>p. Closed (Some 0) ''{...}''),
       JSON_parse = (\<lambda>out. Some (Info info)),
       parseFloat = (\<lambda>t. if t = ''8340.5'' then Some 8340.5 else None),
       parseInt = (\<lambda>t. if t = ''4294967296'' then Some 4294967296 else None) \<rparr>"



definition sampleLibrary :: library where
  "sampleLibrary =
     \<lparr> getMovieByTmdbId =
         (\<lambda>t. if t = 550
               then Inr (Some \<lparr> movie_title = ''Fight Club'', movie_hasFile = True,
                                movieFile = Some \<lparr> mf_path = fightClubPath \<rparr> \<rparr>)
               else if t = 603
               then Inr (Some \<lparr> movie_title = ''The Matrix'', movie_hasFile = False,
                                movieFile = None \<rparr>)
               else Inr None),
       getSeries =
         Inr [ \<lparr> series_id = 3, series_title = ''Breaking Bad'' \<rparr>,
               \<lparr> series_id = 7, series_title = ''Game of Thrones'' \<rparr> ],
       lookupSeriesByTmdbId =
         (\<lambda>t. if t = 1399 then Inr (Some \<lparr> tvdbId = 121361 \<rparr>) else Inr None),
       getSeriesByTvdbId =
         (\<lambda>v. if v = 121361
               then Inr (Some \<lparr> series_id = 7, series_title = ''Game of Thrones'' \<rparr>)
               else Inr None),
       getEpisodes =
         (\<lambda>i. if i = 7
               then Inr [ \<lparr> seasonNumber = 1, episodeNumber = 1, ep_hasFile = True,
                            episodeFileId = 42, ep_title = ''Winter Is Coming'' \<rparr>,
                          \<lparr> seasonNumber = 1, episodeNumber = 2, ep_hasFile = False,
                            episodeFileId = 0, ep_title = ''The Kingsroad'' \<rparr> ]
               else Inr []),
       fetchEpisodeFile =
         (\<lambda>f. if f = 42
               then Inr \<lparr> ok = True, json = Inr \<lparr> ef_path = ''/data/tv/got/s01e01.mkv'' \<rparr> \<rparr>
               else Inr \<lparr> ok = False, json = Inl (Rejected ''no body'') \<rparr>) \<rparr>"

definition missLibrary :: library where
  "missLibrary = sampleLibrary \<lparr> lookupSeriesByTmdbId := (\<lambda>t. Inr None) \<rparr>"

definition emptyLibrary :: library where
  "emptyLibrary = sampleLibrary \<lparr> getSeries := Inr [] \<rparr>"

section \<open>Facts about the playback info builder\<close>

text \<open>
  In the statements below the probe succeeds when \<open>probeFile\<close> resolves a value of the
  declared shape, \<open>Inr (Some (Info info))\<close>; the builder returns a playback info \<open>pb\<close>
  when its result is \<open>Inr (Some pb)\<close>.
\<close>

declare showNat.simps [simp del]

lemma buildPlaybackInfo_fields:
  assumes "probeFile h fp = Inr (Some (Info info))"
    and "find (\<lambda>s. codec_type s = Video) (streams info) = Some v"
  shows "\<exists>pb. buildPlaybackInfo h fp ttl ty = Inr (Some pb)
      \<and> found pb \<and> title pb = ttl \<and> type pb = ty \<and> filePath pb = fp
      \<and> audioCodec (mediaInfo pb) = primaryAudioCodec (streams info)
      \<and> container (mediaInfo pb)
          = (if drop 1 (extname fp) = [] then ''mkv'' else drop 1 (extname fp))
      \<and> needsTranscode pb
          = (toLowerCase (primaryAudioCodec (streams info)) \<notin> set BROWSER_COMPATIBLE_AUDIO)
      \<and> streamUrl pb
          = (if needsTranscode pb then ''/api/media/transcode/'' else ''/api/media/stream/'')
              @ encodeURIComponent fp
      \<and> subtitles pb = buildSubtitles (streams info)
      \<and> audioTracks pb = buildAudioTracks (streams info)"
  using assms by (simp add: buildPlaybackInfo_def Let_def)

lemma buildPlaybackInfo_SomeD:
  assumes "buildPlaybackInfo h fp ttl ty = Inr (Some pb)"
  shows "\<exists>info v. probeFile h fp = Inr (Some (Info info))
      \<and> find (\<lambda>s. codec_type s = Video) (streams info) = Some v"
  using assms
  by (auto simp: buildPlaybackInfo_def split: sum.splits option.splits probe_value.splits)

lemma probeFile_hostOf: "probeFile (hostOf info) fp = Inr (Some (Info info))"
  by (simp add: probeFile_def hostOf_def)

lemma toLowerCase_unknown: "toLowerCase ''unknown'' \<notin> set BROWSER_COMPATIBLE_AUDIO"
  by (simp add: toLowerCase_def lower_char_def BROWSER_COMPATIBLE_AUDIO_def)

lemma toLowerCase_Nil: "toLowerCase [] \<notin> set BROWSER_COMPATIBLE_AUDIO"
  by (simp add: toLowerCase_def BROWSER_COMPATIBLE_AUDIO_def)

section \<open>Playback strategy\<close>

text \<open>
  Claim C1. When the probe succeeds and the file has a video stream, a playback info is
  returned, and it is direct (\<open>needsTranscode\<close> false) exactly when the file has an audio
  stream and the codec name of the first one, lower-cased, is one of \<open>aac\<close>, \<open>mp3\<close>,
  \<open>opus\<close>, \<open>vorbis\<close>, \<open>flac\<close>, \<open>pcm_s16le\<close>, \<open>pcm_s24le\<close>; in every other case it is
  transcode. The stream URL points at the matching endpoint.
\<close>

theorem playback_strategy_by_first_audio_codec:
  assumes "probeFile h fp = Inr (Some (Info info))"
    and "find (\<lambda>s. codec_type s = Video) (streams info) = Some v"
  shows "\<exists>pb. buildPlaybackInfo h fp ttl ty = Inr (Some pb)
      \<and> (\<not> needsTranscode pb \<longleftrightarrow>
           (\<exists>a. find (\<lambda>s. codec_type s = Audio) (streams info) = Some a
              \<and> toLowerCase (codec_name a)
                  \<in> {''aac'', ''mp3'', ''opus'', ''vorbis'', ''flac'',
                      ''pcm_s16le'', ''pcm_s24le''}))
      \<and> streamUrl pb
          = (if needsTranscode pb then ''/api/media/transcode/'' else ''/api/media/stream/'')
              @ encodeURIComponent fp"
proof -
  obtain pb where pb: "buildPlaybackInfo h fp ttl ty = Inr (Some pb)"
    and nt: "needsTranscode pb
      = (toLowerCase (primaryAudioCodec (streams info)) \<notin> set BROWSER_COMPATIBLE_AUDIO)"
    and su: "streamUrl pb
      = (if needsTranscode pb then ''/api/media/transcode/'' else ''/api/media/stream/'')
          @ encodeURIComponent fp"
    using buildPlaybackInfo_fields [OF assms] by blast
  have "toLowerCase (primaryAudioCodec (streams info)) \<in> set BROWSER_COMPATIBLE_AUDIO \<longleftrightarrow>
     (\<exists>a. find (\<lambda>s. codec_type s = Audio) (streams info) = Some a
         \<and> toLowerCase (codec_name a) \<in> set BROWSER_COMPATIBLE_AUDIO)"
    using toLowerCase_unknown toLowerCase_Nil
    by (auto simp: primaryAudioCodec_def split: option.splits)
  with pb nt su show ?thesis by (simp add: BROWSER_COMPATIBLE_AUDIO_def)
qed

theorem playback_strategy_by_first_audio_codec_witness:
  "probeFile (hostOf gappyInfo) ''/data/a.mkv'' = Inr (Some (Info gappyInfo))
   \<and> find (\<lambda>s. codec_type s = Video) (streams gappyInfo) = Some (mkStream 0 Video ''hevc'')
   \<and> map_sum id (map_option needsTranscode)
        (buildPlaybackInfo (hostOf gappyInfo) ''/data/a.mkv'' ''A'' movie) = Inr (Some False)
   \<and> map_sum id (map_option streamUrl)
        (buildPlaybackInfo (hostOf gappyInfo) ''/data/a.mkv'' ''A'' movie)
       = Inr (Some ''/api/media/stream/%2Fdata%2Fa.mkv'')"
proof -
  have h1: "probeFile (hostOf gappyInfo) ''/data/a.mkv'' = Inr (Some (Info gappyInfo))"
    by (rule probeFile_hostOf)
  have h2: "find (\<lambda>s. codec_type s = Video) (streams gappyInfo)
      = Some (mkStream 0 Video ''hevc'')"
    by (simp add: gappyInfo_def mkStream_def)
  have a: "find (\<lambda>s. codec_type s = Audio) (streams gappyInfo)
      = Some (mkStream 2 Audio ''AAC'')"
    by (simp add: gappyInfo_def mkStream_def)
  have l: "toLowerCase (codec_name (mkStream 2 Audio ''AAC'')) = ''aac''"
    by (simp add: mkStream_def toLowerCase_def lower_char_def)
  have e: "encodeURIComponent ''/data/a.mkv'' = ''%2Fdata%2Fa.mkv''"
    by (simp add: encodeURIComponent_def encodeChar_def uri_unreserved_def hexDigit_def)
  from playback_strategy_by_first_audio_codec [OF h1 h2, of "''A''" movie]
  obtain pb where "buildPlaybackInfo (hostOf gappyInfo) ''/data/a.mkv'' ''A'' movie = Inr (Some pb)"
    and "\<not> needsTranscode pb"
    and "streamUrl pb = ''/api/media/stream/'' @ encodeURIComponent ''/data/a.mkv''"
    using a l by auto
  with h1 h2 e show ?thesis by simp
qed

section \<open>Track lists\<close>

lemma buildAudioTracks_streamIndex:
  "map at_streamIndex (buildAudioTracks ss) = map int [0..<length (buildAudioTracks ss)]"
  by (simp add: buildAudioTracks_def audioTrackOf_def case_prod_beta comp_def
      flip: map_map [of int fst, unfolded comp_def])

lemma buildAudioTracks_id:
  "map at_id (buildAudioTracks ss) = map index (filter (\<lambda>s. codec_type s = Audio) ss)"
  by (simp add: buildAudioTracks_def audioTrackOf_def case_prod_beta comp_def
      flip: map_map [of index snd, unfolded comp_def])

lemma buildSubtitles_streamIndex:
  "map st_streamIndex (buildSubtitles ss) = map int [0..<length (buildSubtitles ss)]"
  by (simp add: buildSubtitles_def subtitleTrackOf_def case_prod_beta comp_def
      flip: map_map [of int fst, unfolded comp_def])

lemma buildSubtitles_id:
  "map st_id (buildSubtitles ss) = map index (filter (\<lambda>s. codec_type s = Subtitle) ss)"
  by (simp add: buildSubtitles_def subtitleTrackOf_def case_prod_beta comp_def
      flip: map_map [of index snd, unfolded comp_def])

lemma find_filter_Cons:
  "find P xs = Some a \<Longrightarrow> \<exists>rest. filter P xs = a # rest"
  by (induction xs) (auto split: if_splits)

lemma enumerate_not_selected:
  "0 < n \<Longrightarrow> filter at_selected (map audioTrackOf (enumerate n xs)) = []"
  by (auto simp: filter_empty_conv audioTrackOf_def in_set_enumerate_eq)

lemma buildAudioTracks_selected:
  assumes "find (\<lambda>s. codec_type s = Audio) ss = Some a"
  shows "buildAudioTracks ss \<noteq> []
    \<and> filter at_selected (buildAudioTracks ss) = [hd (buildAudioTracks ss)]
    \<and> at_id (hd (buildAudioTracks ss)) = index a
    \<and> at_streamIndex (hd (buildAudioTracks ss)) = 0"
proof -
  obtain rest where r: "filter (\<lambda>s. codec_type s = Audio) ss = a # rest"
    using find_filter_Cons [OF assms] by blast
  have "filter at_selected (map audioTrackOf (enumerate (Suc 0) rest)) = []"
    by (rule enumerate_not_selected) simp
  then show ?thesis
    by (simp add: buildAudioTracks_def r) (simp add: audioTrackOf_def)
qed

lemma buildAudioTracks_Nil:
  "find (\<lambda>s. codec_type s = Audio) ss = None \<Longrightarrow> buildAudioTracks ss = []"
  by (auto simp: buildAudioTracks_def find_None_iff filter_empty_conv)

lemma video_gappyInfo:
  "find (\<lambda>s. codec_type s = Video) (streams gappyInfo) = Some (mkStream 0 Video ''hevc'')"
  by (simp add: gappyInfo_def mkStream_def)

text \<open>
  Claim C2, as the code has it. When the probe succeeds and the file has a video stream,
  the \<open>streamIndex\<close> values of the audio tracks and of the subtitle tracks each form the
  dense sequence 0, 1, 2, ... without gaps or duplicates, whatever the container's stream
  indices are, and the \<open>id\<close> of every track is the container's stream index of its stream.
\<close>

theorem track_indexes:
  assumes "probeFile h fp = Inr (Some (Info info))"
    and "find (\<lambda>s. codec_type s = Video) (streams info) = Some v"
  shows "\<exists>pb. buildPlaybackInfo h fp ttl ty = Inr (Some pb)
      \<and> map at_streamIndex (audioTracks pb) = map int [0..<length (audioTracks pb)]
      \<and> map st_streamIndex (subtitles pb) = map int [0..<length (subtitles pb)]
      \<and> map at_id (audioTracks pb) = map index (filter (\<lambda>s. codec_type s = Audio) (streams info))
      \<and> map st_id (subtitles pb)
          = map index (filter (\<lambda>s. codec_type s = Subtitle) (streams info))"
proof -
  obtain pb where pb: "buildPlaybackInfo h fp ttl ty = Inr (Some pb)"
    and "subtitles pb = buildSubtitles (streams info)"
    and "audioTracks pb = buildAudioTracks (streams info)"
    using buildPlaybackInfo_fields [OF assms] by blast
  then show ?thesis
    using buildAudioTracks_streamIndex buildAudioTracks_id
      buildSubtitles_streamIndex buildSubtitles_id by metis
qed

theorem track_indexes_witness:
  "probeFile (hostOf gappyInfo) ''/data/a.mkv'' = Inr (Some (Info gappyInfo))
   \<and> find (\<lambda>s. codec_type s = Video) (streams gappyInfo) = Some (mkStream 0 Video ''hevc'')
   \<and> map_sum id (map_option (\<lambda>pb. map st_streamIndex (subtitles pb)))
        (buildPlaybackInfo (hostOf gappyInfo) ''/data/a.mkv'' ''A'' movie) = Inr (Some [0, 1])
   \<and> map_sum id (map_option (\<lambda>pb. map st_id (subtitles pb)))
        (buildPlaybackInfo (hostOf gappyInfo) ''/data/a.mkv'' ''A'' movie) = Inr (Some [4, 7])"
proof -
  have h1: "probeFile (hostOf gappyInfo) ''/data/a.mkv'' = Inr (Some (Info gappyInfo))"
    by (rule probeFile_hostOf)
  note h2 = video_gappyInfo
  have f: "map index (filter (\<lambda>s. codec_type s = Subtitle) (streams gappyInfo)) = [4, 7]"
    by (simp add: gappyInfo_def mkStream_def)
  from track_indexes [OF h1 h2, of "''A''" movie]
  obtain pb where pb: "buildPlaybackInfo (hostOf gappyInfo) ''/data/a.mkv'' ''A'' movie = Inr (Some pb)"
    and si: "map st_streamIndex (subtitles pb) = map int [0..<length (subtitles pb)]"
    and sid: "map st_id (subtitles pb) = [4, 7]"
    using f by auto
  have "length (map st_id (subtitles pb)) = 2"
    by (simp only: sid) simp
  then have "length (subtitles pb) = 2" by simp
  with si have "map st_streamIndex (subtitles pb) = [0, 1]"
    by (simp add: upt_rec)
  with h1 h2 pb sid show ?thesis by simp
qed

text \<open>
  Claim C2 as written gives the two fields the opposite roles. On a file with the streams
  0 (video), 2 (audio), 4 and 7 (subtitles) the \<open>id\<close> values are 2 and 4, 7, not 0 and
  0, 1; the dense values are in \<open>streamIndex\<close>.
\<close>

theorem track_ids_counterexample:
  "map_sum id (map_option (\<lambda>pb. (map at_id (audioTracks pb), map st_id (subtitles pb))))
     (buildPlaybackInfo (hostOf gappyInfo) ''/data/a.mkv'' ''A'' movie) = Inr (Some ([2], [4, 7]))
   \<and> map_sum id (map_option (\<lambda>pb. (map at_id (audioTracks pb), map st_id (subtitles pb))))
     (buildPlaybackInfo (hostOf gappyInfo) ''/data/a.mkv'' ''A'' movie)
        \<noteq> Inr (Some (map int [0..<1], map int [0..<2]))
   \<and> map_sum id (map_option (\<lambda>pb. (map at_streamIndex (audioTracks pb), map st_streamIndex (subtitles pb))))
     (buildPlaybackInfo (hostOf gappyInfo) ''/data/a.mkv'' ''A'' movie) = Inr (Some ([0], [0, 1]))"
  by (simp add: buildPlaybackInfo_def probeFile_hostOf gappyInfo_def mkStream_def Let_def
      buildAudioTracks_def buildSubtitles_def audioTrackOf_def subtitleTrackOf_def upt_rec)

text \<open>
  Claim C3, as the code has it. When the probe succeeds and the file has a video stream
  and at least one audio stream, exactly one audio track has \<open>selected\<close> true, and it is
  the first audio track (the track of the first audio stream), whatever else the probed
  stream objects carry.
\<close>

theorem first_audio_track_selected:
  assumes "probeFile h fp = Inr (Some (Info info))"
    and "find (\<lambda>s. codec_type s = Video) (streams info) = Some v"
    and "find (\<lambda>s. codec_type s = Audio) (streams info) = Some a"
  shows "\<exists>pb. buildPlaybackInfo h fp ttl ty = Inr (Some pb)
      \<and> audioTracks pb \<noteq> []
      \<and> filter at_selected (audioTracks pb) = [hd (audioTracks pb)]
      \<and> at_id (hd (audioTracks pb)) = index a"
proof -
  obtain pb where pb: "buildPlaybackInfo h fp ttl ty = Inr (Some pb)"
    and "audioTracks pb = buildAudioTracks (streams info)"
    using buildPlaybackInfo_fields [OF assms(1,2)] by blast
  then show ?thesis
    using buildAudioTracks_selected [OF assms(3)] by auto
qed

theorem first_audio_track_selected_witness:
  "probeFile (hostOf twoAudioInfo) ''/data/a.mkv'' = Inr (Some (Info twoAudioInfo))
   \<and> find (\<lambda>s. codec_type s = Video) (streams twoAudioInfo) = Some (mkProbed 0 Video ''h264'' True)
   \<and> find (\<lambda>s. codec_type s = Audio) (streams twoAudioInfo) = Some (mkProbed 1 Audio ''aac'' False)
   \<and> map_sum id (map_option (\<lambda>pb. map at_id (filter at_selected (audioTracks pb))))
        (buildPlaybackInfo (hostOf twoAudioInfo) ''/data/a.mkv'' ''A'' movie) = Inr (Some [1])"
proof -
  have h1: "probeFile (hostOf twoAudioInfo) ''/data/a.mkv'' = Inr (Some (Info twoAudioInfo))"
    by (rule probeFile_hostOf)
  have h2: "find (\<lambda>s. codec_type s = Video) (streams twoAudioInfo)
      = Some (mkProbed 0 Video ''h264'' True)"
    by (simp add: twoAudioInfo_def mkProbed_def)
  have h3: "find (\<lambda>s. codec_type s = Audio) (streams twoAudioInfo)
      = Some (mkProbed 1 Audio ''aac'' False)"
    by (simp add: twoAudioInfo_def mkProbed_def)
  from first_audio_track_selected [OF h1 h2 h3, of "''A''" movie]
  obtain pb where "buildPlaybackInfo (hostOf twoAudioInfo) ''/data/a.mkv'' ''A'' movie = Inr (Some pb)"
    and "filter at_selected (audioTracks pb) = [hd (audioTracks pb)]"
    and "at_id (hd (audioTracks pb)) = 1"
    by (auto simp: mkProbed_def)
  with h1 h2 h3 show ?thesis by simp
qed

text \<open>
  Claim C3 as written selects the track that the source marks as default. On a file
  whose second audio stream carries the default mark and whose first does not, the first
  track is selected and the second is not.
\<close>

theorem default_mark_counterexample:
  "map_sum id (map_option (\<lambda>pb. map at_selected (audioTracks pb)))
     (buildPlaybackInfo (hostOf twoAudioInfo) ''/data/a.mkv'' ''A'' movie) = Inr (Some [True, False])
   \<and> map disposition_default (filter (\<lambda>s. codec_type s = Audio) (streams twoAudioInfo))
      = [False, True]"
  by (simp add: buildPlaybackInfo_def probeFile_hostOf twoAudioInfo_def mkProbed_def Let_def
      buildAudioTracks_def audioTrackOf_def)

text \<open>
  Claim C9. When the probe succeeds and the file has a video stream and no audio stream,
  a playback info is returned with \<open>found\<close> true, an empty list of audio tracks (so no
  track is selected), the audio codec \<open>unknown\<close>, and \<open>needsTranscode\<close> true.
\<close>

theorem no_audio_stream:
  assumes "probeFile h fp = Inr (Some (Info info))"
    and "find (\<lambda>s. codec_type s = Video) (streams info) = Some v"
    and "find (\<lambda>s. codec_type s = Audio) (streams info) = None"
  shows "\<exists>pb. buildPlaybackInfo h fp ttl ty = Inr (Some pb)
      \<and> found pb
      \<and> audioTracks pb = []
      \<and> audioCodec (mediaInfo pb) = ''unknown''
      \<and> needsTranscode pb"
proof -
  have "primaryAudioCodec (streams info) = ''unknown''"
    using assms(3) by (simp add: primaryAudioCodec_def)
  then show ?thesis
    using buildPlaybackInfo_fields [OF assms(1,2), of ttl ty]
      buildAudioTracks_Nil [OF assms(3)] toLowerCase_unknown
    by auto
qed

theorem no_audio_stream_witness:
  "probeFile (hostOf silentInfo) ''/data/a.mkv'' = Inr (Some (Info silentInfo))
   \<and> find (\<lambda>s. codec_type s = Video) (streams silentInfo) = Some (mkStream 0 Video ''h264'')
   \<and> find (\<lambda>s. codec_type s = Audio) (streams silentInfo) = None
   \<and> map_sum id (map_option (\<lambda>pb. (found pb, audioTracks pb, audioCodec (mediaInfo pb), needsTranscode pb)))
        (buildPlaybackInfo (hostOf silentInfo) ''/data/a.mkv'' ''A'' movie)
       = Inr (Some (True, [], ''unknown'', True))"
proof -
  have h1: "probeFile (hostOf silentInfo) ''/data/a.mkv'' = Inr (Some (Info silentInfo))"
    by (rule probeFile_hostOf)
  have h2: "find (\<lambda>s. codec_type s = Video) (streams silentInfo)
      = Some (mkStream 0 Video ''h264'')"
    by (simp add: silentInfo_def mkStream_def)
  have h3: "find (\<lambda>s. codec_type s = Audio) (streams silentInfo) = None"
    by (simp add: silentInfo_def mkStream_def)
  from no_audio_stream [OF h1 h2 h3, of "''A''" movie] h1 h2 h3
  show ?thesis by auto
qed

section \<open>Container\<close>

text \<open>
  Claim C8. The container of the returned playback info is computed from the extension
  of the file path: the extension without its dot, or \<open>mkv\<close> when the path has no
  extension. Nothing the probe reports enters it, so this holds in particular when the
  probe reports no container type.
\<close>

theorem container_from_extension:
  assumes "probeFile h fp = Inr (Some (Info info))"
    and "find (\<lambda>s. codec_type s = Video) (streams info) = Some v"
  shows "\<exists>pb. buildPlaybackInfo h fp ttl ty = Inr (Some pb)
      \<and> container (mediaInfo pb)
          = (if drop 1 (extname fp) = [] then ''mkv'' else drop 1 (extname fp))"
  using buildPlaybackInfo_fields [OF assms, of ttl ty] by blast

theorem container_from_extension_witness:
  "probeFile (hostOf gappyInfo) ''/data/clips/holiday.webm'' = Inr (Some (Info gappyInfo))
   \<and> find (\<lambda>s. codec_type s = Video) (streams gappyInfo) = Some (mkStream 0 Video ''hevc'')
   \<and> map_sum id (map_option (\<lambda>pb. container (mediaInfo pb)))
        (buildPlaybackInfo (hostOf gappyInfo) ''/data/clips/holiday.webm'' ''A'' movie)
       = Inr (Some ''webm'')
   \<and> map_sum id (map_option (\<lambda>pb. container (mediaInfo pb)))
        (buildPlaybackInfo (hostOf gappyInfo) ''/data/clips/holiday'' ''A'' movie)
       = Inr (Some ''mkv'')"
proof -
  have h1: "probeFile (hostOf gappyInfo) fp = Inr (Some (Info gappyInfo))" for fp
    by (rule probeFile_hostOf)
  note h2 = video_gappyInfo
  have e1: "extname ''/data/clips/holiday.webm'' = ''.webm''"
    by (simp add: extname_def Let_def)
  have e2: "extname ''/data/clips/holiday'' = []"
    by (simp add: extname_def Let_def)
  from container_from_extension [OF h1 h2, of "''/data/clips/holiday.webm''" "''A''" movie]
    container_from_extension [OF h1 h2, of "''/data/clips/holiday''" "''A''" movie]
    h1 h2 e1 e2
  show ?thesis by auto
qed

text \<open>
  The scenario of the specification: video h264 1920x1080, audio eac3 with 6 channels,
  two subtitle streams. The strategy is transcode, the one audio track is selected, and
  the two subtitle tracks have the dense values 0 and 1 in \<open>streamIndex\<close> and the
  container indices 2 and 3 in \<open>id\<close>.
\<close>

lemma fight_club_scenario:
  "map_sum id (map_option
     (\<lambda>pb. (needsTranscode pb, map at_selected (audioTracks pb), map at_channels (audioTracks pb),
            map st_streamIndex (subtitles pb), map st_id (subtitles pb),
            map st_language (subtitles pb), mi_width (mediaInfo pb), container (mediaInfo pb))))
     (buildPlaybackInfo (hostOf fightClubInfo) fightClubPath ''Fight Club'' movie)
   = Inr (Some (True, [True], [6], [0, 1], [2, 3], [''eng'', ''fre''], 1920, ''mkv''))"
  by (simp add: buildPlaybackInfo_def probeFile_hostOf fightClubInfo_def mkStream_def Let_def
      buildAudioTracks_def buildSubtitles_def audioTrackOf_def subtitleTrackOf_def
      primaryAudioCodec_def toLowerCase_def lower_char_def BROWSER_COMPATIBLE_AUDIO_def
      extname_def fightClubPath_def langTags_def tagsLanguage_def tagsTitle_def orStr_def
      orOpt_def)

section \<open>Entry points\<close>



lemma getMoviePlayback_resolved:
  assumes "getMovieByTmdbId lib t = Inr (Some m)" and "movieFile m = Some f"
  shows "getMoviePlayback h lib t =
    ([GetMovieByTmdbId t],
     if \<not> movie_hasFile m \<or> mf_path f = [] then Inr None
     else buildPlaybackInfo h (mf_path f) (movie_title m) movie)"
  using assms by (simp add: getMoviePlayback_def)

lemma getMoviePlayback_cases:
  "outcome (getMoviePlayback h lib t) = Inr (Some pb) \<Longrightarrow>
     \<exists>fp ttl. fp \<noteq> [] \<and> buildPlaybackInfo h fp ttl movie = Inr (Some pb)"
  by (auto simp: getMoviePlayback_def split: sum.splits option.splits if_splits)

lemma getEpisodePlayback_resolved:
  assumes "getSeries lib = Inr allSeries"
    and "outcome (seriesLoop lib t allSeries) = Inr (Some series)"
    and "getEpisodes lib (series_id series) = Inr eps"
    and "find (\<lambda>x. seasonNumber x = s \<and> episodeNumber x = e) eps = Some target"
  shows "outcome (getEpisodePlayback h lib t s e) =
    (if \<not> ep_hasFile target \<or> episodeFileId target = 0 then Inr None
     else case snd (getEpisodeFilePath lib (series_id series) (episodeFileId target)) of
            None \<Rightarrow> Inr None
          | Some fp \<Rightarrow> if fp = [] then Inr None
                       else buildPlaybackInfo h fp (episodeTitle series s e target) episode)"
  using assms
  by (cases "seriesLoop lib t allSeries")
     (simp add: getEpisodePlayback_def split: prod.splits option.splits)

lemma getEpisodePlayback_cases:
  "outcome (getEpisodePlayback h lib t s e) = Inr (Some pb) \<Longrightarrow>
     \<exists>fp ttl. fp \<noteq> [] \<and> buildPlaybackInfo h fp ttl episode = Inr (Some pb)"
  by (auto simp: getEpisodePlayback_def split: sum.splits option.splits if_splits prod.splits)

lemma seriesLoop_not_found:
  assumes "lookupSeriesByTmdbId lib t = Inr r" and "r = None \<or> map_option tvdbId r = Some 0"
  shows "seriesLoop lib t xs = (replicate (length xs) (LookupSeriesByTmdbId t), Inr None)"
  using assms by (induction xs) auto

lemma seriesLoop_outcome_Cons:
  "outcome (seriesLoop lib t (x # xs)) = outcome (seriesLoop lib t [y])"
  by (induction xs arbitrary: x)
     (auto split: sum.splits option.splits prod.splits)

lemma seriesLoop_getSeries_update:
  "seriesLoop (lib \<lparr> getSeries := g \<rparr>) t xs = seriesLoop lib t xs"
  by (induction xs) (auto split: sum.splits option.splits prod.splits)

lemma getEpisodePlayback_via_loop:
  assumes "getSeries lib = Inr xs" and "getSeries lib' = Inr ys"
    and "outcome (seriesLoop lib t xs) = outcome (seriesLoop lib' t ys)"
    and "getEpisodes lib' = getEpisodes lib" and "fetchEpisodeFile lib' = fetchEpisodeFile lib"
  shows "outcome (getEpisodePlayback h lib' t s e) = outcome (getEpisodePlayback h lib t s e)"
  using assms
  by (cases "seriesLoop lib t xs"; cases "seriesLoop lib' t ys")
     (simp add: getEpisodePlayback_def getEpisodeFilePath_def split: sum.splits option.splits)



lemma sample_getSeries:
  "getSeries sampleLibrary =
     Inr [\<lparr> series_id = 3, series_title = ''Breaking Bad'' \<rparr>,
          \<lparr> series_id = 7, series_title = ''Game of Thrones'' \<rparr>]"
  by (simp add: sampleLibrary_def)

lemma sample_seriesLoop:
  "seriesLoop sampleLibrary 1399 (x # xs) =
     ([LookupSeriesByTmdbId 1399, GetSeriesByTvdbId 121361],
      Inr (Some \<lparr> series_id = 7, series_title = ''Game of Thrones'' \<rparr>))"
  by (simp add: sampleLibrary_def)

lemma sample_getEpisodes:
  "getEpisodes sampleLibrary 7 =
     Inr [ \<lparr> seasonNumber = 1, episodeNumber = 1, ep_hasFile = True,
              episodeFileId = 42, ep_title = ''Winter Is Coming'' \<rparr>,
           \<lparr> seasonNumber = 1, episodeNumber = 2, ep_hasFile = False,
              episodeFileId = 0, ep_title = ''The Kingsroad'' \<rparr> ]"
  by (simp add: sampleLibrary_def)

lemma sample_getEpisodeFilePath:
  "getEpisodeFilePath sampleLibrary 7 42 = ([FetchEpisodeFile 42], Some ''/data/tv/got/s01e01.mkv'')"
  by (simp add: getEpisodeFilePath_def sampleLibrary_def)

lemma sample_getMovie:
  "getMovieByTmdbId sampleLibrary 550 =
     Inr (Some \<lparr> movie_title = ''Fight Club'', movie_hasFile = True,
                  movieFile = Some \<lparr> mf_path = fightClubPath \<rparr> \<rparr>)"
  by (simp add: sampleLibrary_def)





text \<open>
  The same holds when \<open>spawn\<close> returns a child without its output streams: the promise
  of \<open>probeFile\<close> rejects, and the builder passes the exception on.
\<close>

lemma spawn_without_stdio_rejects:
  assumes "existsSync h fp" and "spawn_ffprobe h fp = NoStdio"
  shows "probeFile h fp = Inl TypeError \<and> buildPlaybackInfo h fp ttl ty = Inl TypeError"
  using assms by (simp add: probeFile_def buildPlaybackInfo_def)

text \<open>
  Claim C5. A movie that the library manager knows but that has no file (no \<open>hasFile\<close>, no
  movie file, or an empty path), and an episode that it lists but that has no file (no
  \<open>hasFile\<close>, no file id, or no path or an empty path from the file lookup), resolve to
  null (\<open>Inr None\<close>) without an exception; and no playback info returned by either entry
  point has an empty file path.
\<close>

theorem title_without_file_is_not_found:
  "(getMovieByTmdbId lib t = Inr (Some m)
      \<and> (\<not> movie_hasFile m \<or> movieFile m = None
          \<or> movieFile m = Some \<lparr> mf_path = [] \<rparr>)
     \<longrightarrow> outcome (getMoviePlayback h lib t) = Inr None)
   \<and> (getSeries lib = Inr allSeries
        \<and> outcome (seriesLoop lib t allSeries) = Inr (Some series)
        \<and> getEpisodes lib (series_id series) = Inr eps
        \<and> find (\<lambda>x. seasonNumber x = s \<and> episodeNumber x = e) eps = Some target
        \<and> (\<not> ep_hasFile target \<or> episodeFileId target = 0
            \<or> snd (getEpisodeFilePath lib (series_id series) (episodeFileId target)) = None
            \<or> snd (getEpisodeFilePath lib (series_id series) (episodeFileId target)) = Some [])
     \<longrightarrow> outcome (getEpisodePlayback h lib t s e) = Inr None)
   \<and> (outcome (getMoviePlayback h lib t) = Inr (Some pb) \<longrightarrow> filePath pb \<noteq> [])
   \<and> (outcome (getEpisodePlayback h lib t s e) = Inr (Some pb') \<longrightarrow> filePath pb' \<noteq> [])"
proof (intro conjI impI)
  assume "getMovieByTmdbId lib t = Inr (Some m)
      \<and> (\<not> movie_hasFile m \<or> movieFile m = None
          \<or> movieFile m = Some \<lparr> mf_path = [] \<rparr>)"
  then show "outcome (getMoviePlayback h lib t) = Inr None"
    by (auto simp: getMoviePlayback_def split: option.splits)
next
  assume a: "getSeries lib = Inr allSeries
        \<and> outcome (seriesLoop lib t allSeries) = Inr (Some series)
        \<and> getEpisodes lib (series_id series) = Inr eps
        \<and> find (\<lambda>x. seasonNumber x = s \<and> episodeNumber x = e) eps = Some target
        \<and> (\<not> ep_hasFile target \<or> episodeFileId target = 0
            \<or> snd (getEpisodeFilePath lib (series_id series) (episodeFileId target)) = None
            \<or> snd (getEpisodeFilePath lib (series_id series) (episodeFileId target)) = Some [])"
  then have a1: "getSeries lib = Inr allSeries"
    and a2: "outcome (seriesLoop lib t allSeries) = Inr (Some series)"
    and a3: "getEpisodes lib (series_id series) = Inr eps"
    and a4: "find (\<lambda>x. seasonNumber x = s \<and> episodeNumber x = e) eps = Some target"
    by blast+
  from a getEpisodePlayback_resolved [OF a1 a2 a3 a4, of h] show "outcome (getEpisodePlayback h lib t s e) = Inr None"
    by auto
next
  assume "outcome (getMoviePlayback h lib t) = Inr (Some pb)"
  then obtain fp ttl where "fp \<noteq> []" and b: "buildPlaybackInfo h fp ttl movie = Inr (Some pb)"
    using getMoviePlayback_cases by blast
  moreover from b have "filePath pb = fp"
    using buildPlaybackInfo_SomeD [OF b] buildPlaybackInfo_fields [of h fp _ _ ttl movie]
    by auto
  ultimately show "filePath pb \<noteq> []" by simp
next
  assume "outcome (getEpisodePlayback h lib t s e) = Inr (Some pb')"
  then obtain fp ttl where "fp \<noteq> []" and b: "buildPlaybackInfo h fp ttl episode = Inr (Some pb')"
    using getEpisodePlayback_cases by blast
  moreover from b have "filePath pb' = fp"
    using buildPlaybackInfo_SomeD [OF b] buildPlaybackInfo_fields [of h fp _ _ ttl episode]
    by auto
  ultimately show "filePath pb' \<noteq> []" by simp
qed

lemma video_fightClub:
  "find (\<lambda>s. codec_type s = Video) (streams fightClubInfo)
     = Some ((mkStream 0 Video ''h264'') \<lparr> width := Some 1920, height := Some 1080 \<rparr>)"
  by (simp add: fightClubInfo_def mkStream_def)

lemma fightClubPath_not_Nil: "fightClubPath \<noteq> []"
  by (simp add: fightClubPath_def)

theorem title_without_file_is_not_found_witness:
  "outcome (getMoviePlayback (hostOf fightClubInfo) sampleLibrary 603) = Inr None
   \<and> outcome (getEpisodePlayback (hostOf fightClubInfo) sampleLibrary 1399 1 2) = Inr None
   \<and> (\<exists>pb. outcome (getMoviePlayback (hostOf fightClubInfo) sampleLibrary 550) = Inr (Some pb)
         \<and> filePath pb \<noteq> [])
   \<and> (\<exists>pb. outcome (getEpisodePlayback (hostOf fightClubInfo) sampleLibrary 1399 1 1)
           = Inr (Some pb)
         \<and> filePath pb \<noteq> [])"
proof -
  let ?h = "hostOf fightClubInfo"
  let ?matrix = "\<lparr> movie_title = ''The Matrix'', movie_hasFile = False, movieFile = None \<rparr>"
  let ?fc = "\<lparr> movie_title = ''Fight Club'', movie_hasFile = True,
               movieFile = Some \<lparr> mf_path = fightClubPath \<rparr> \<rparr>"
  let ?bb = "\<lparr> series_id = 3, series_title = ''Breaking Bad'' \<rparr>"
  let ?series = "\<lparr> series_id = 7, series_title = ''Game of Thrones'' \<rparr>"
  let ?e1 = "\<lparr> seasonNumber = 1, episodeNumber = 1, ep_hasFile = True,
                episodeFileId = 42, ep_title = ''Winter Is Coming'' \<rparr>"
  let ?e2 = "\<lparr> seasonNumber = 1, episodeNumber = 2, ep_hasFile = False,
                episodeFileId = 0, ep_title = ''The Kingsroad'' \<rparr>"
  note inst = title_without_file_is_not_found
    [where h = ?h and lib = sampleLibrary and allSeries = "[?bb, ?series]"
       and series = ?series and eps = "[?e1, ?e2]"]
  have loop: "outcome (seriesLoop sampleLibrary 1399 [?bb, ?series]) = Inr (Some ?series)"
    by (simp only: sample_seriesLoop snd_conv)
  have eps: "getEpisodes sampleLibrary (series_id ?series) = Inr [?e1, ?e2]"
    by (simp add: sample_getEpisodes)
  have mx: "getMovieByTmdbId sampleLibrary 603 = Inr (Some ?matrix)"
    by (simp add: sampleLibrary_def)
  from inst [where t = 603 and m = ?matrix] mx
  have c1: "outcome (getMoviePlayback ?h sampleLibrary 603) = Inr None"
    by simp
  from inst [where t = 1399 and s = 1 and e = 2 and target = ?e2]
  have c2: "outcome (getEpisodePlayback ?h sampleLibrary 1399 1 2) = Inr None"
    using sample_getSeries loop eps by (simp del: seriesLoop.simps)
  obtain pb where pb: "buildPlaybackInfo ?h fightClubPath ''Fight Club'' movie = Inr (Some pb)"
    using buildPlaybackInfo_fields [OF probeFile_hostOf video_fightClub] by blast
  have "outcome (getMoviePlayback ?h sampleLibrary 550) = Inr (Some pb)"
    using getMoviePlayback_resolved [OF sample_getMovie, of "\<lparr> mf_path = fightClubPath \<rparr>" ?h]
      pb fightClubPath_not_Nil by simp
  with inst [where t = 550 and pb = pb]
  have c3: "\<exists>pb. outcome (getMoviePlayback ?h sampleLibrary 550) = Inr (Some pb)
      \<and> filePath pb \<noteq> []"
    by blast
  have fnd: "find (\<lambda>x. seasonNumber x = 1 \<and> episodeNumber x = 1) [?e1, ?e2] = Some ?e1"
    by simp
  obtain pe where pe: "buildPlaybackInfo ?h ''/data/tv/got/s01e01.mkv''
      (episodeTitle ?series 1 1 ?e1) episode = Inr (Some pe)"
    using buildPlaybackInfo_fields [OF probeFile_hostOf video_fightClub] by blast
  have "outcome (getEpisodePlayback ?h sampleLibrary 1399 1 1) = Inr (Some pe)"
    using getEpisodePlayback_resolved [OF sample_getSeries loop eps fnd, of ?h]
      pe sample_getEpisodeFilePath by simp
  with inst [where t = 1399 and s = 1 and e = 1 and pb' = pe]
  have c4: "\<exists>pb. outcome (getEpisodePlayback ?h sampleLibrary 1399 1 1) = Inr (Some pb)
      \<and> filePath pb \<noteq> []"
    by blast
  from c1 c2 c3 c4 show ?thesis by blast
qed

text \<open>
  Claim C6. When the series list has been fetched and the cross-reference lookup finds
  no series for the requested show id (it answers null, or an entry without a usable
  \<open>tvdbId\<close>), the episode entry point returns null (\<open>Inr None\<close>) and raises no exception;
  it has asked the lookup once per listed series and nothing else.
\<close>

theorem lookup_miss_is_not_found:
  assumes "getSeries lib = Inr allSeries"
    and "lookupSeriesByTmdbId lib t = Inr r"
    and "r = None \<or> map_option tvdbId r = Some 0"
  shows "getEpisodePlayback h lib t s e
    = (GetSeries # replicate (length allSeries) (LookupSeriesByTmdbId t), Inr None)"
  using assms(1) seriesLoop_not_found [OF assms(2,3)]
  by (simp add: getEpisodePlayback_def)

theorem lookup_miss_is_not_found_witness:
  "getSeries missLibrary =
     Inr [\<lparr> series_id = 3, series_title = ''Breaking Bad'' \<rparr>,
          \<lparr> series_id = 7, series_title = ''Game of Thrones'' \<rparr>]
   \<and> lookupSeriesByTmdbId missLibrary 1399 = Inr None
   \<and> getEpisodePlayback (hostOf fightClubInfo) missLibrary 1399 1 1
       = ([GetSeries, LookupSeriesByTmdbId 1399, LookupSeriesByTmdbId 1399], Inr None)"
proof -
  have h1: "getSeries missLibrary =
     Inr [\<lparr> series_id = 3, series_title = ''Breaking Bad'' \<rparr>,
          \<lparr> series_id = 7, series_title = ''Game of Thrones'' \<rparr>]"
    by (simp add: missLibrary_def sampleLibrary_def)
  have h2: "lookupSeriesByTmdbId missLibrary 1399 = Inr None"
    by (simp add: missLibrary_def)
  have h3: "(None :: SeriesLookup option) = None \<or> map_option tvdbId None = Some 0"
    by simp
  from lookup_miss_is_not_found [OF h1 h2 h3, of "hostOf fightClubInfo" 1 1] h1 h2
  show ?thesis by (simp add: numeral_2_eq_2)
qed

text \<open>
  Claim C10. When the library manager reports an empty series list, the episode entry
  point returns null for every show id, season and episode, and its only call is the one
  that fetched the list: the cross-reference lookup is never invoked. When the list is
  not empty, the series that the loop selects, and with it the result of the entry point,
  is the same for every non-empty list: it depends on the requested show id, not on the
  series in the list.
\<close>

theorem empty_series_list_and_loop:
  "(getSeries lib = Inr [] \<longrightarrow> getEpisodePlayback h lib t s e = ([GetSeries], Inr None))
   \<and> (xs \<noteq> [] \<and> ys \<noteq> []
       \<longrightarrow> outcome (seriesLoop lib t xs) = outcome (seriesLoop lib t ys))
   \<and> (xs \<noteq> [] \<and> ys \<noteq> []
       \<longrightarrow> outcome (getEpisodePlayback h (lib \<lparr> getSeries := Inr xs \<rparr>) t s e)
           = outcome (getEpisodePlayback h (lib \<lparr> getSeries := Inr ys \<rparr>) t s e))"
proof (intro conjI impI)
  assume "getSeries lib = Inr []"
  then show "getEpisodePlayback h lib t s e = ([GetSeries], Inr None)"
    by (simp add: getEpisodePlayback_def)
next
  assume a: "xs \<noteq> [] \<and> ys \<noteq> []"
  then obtain x xs' y ys' where "xs = x # xs'" and "ys = y # ys'"
    by (cases xs; cases ys) auto
  then show "outcome (seriesLoop lib t xs) = outcome (seriesLoop lib t ys)"
    using seriesLoop_outcome_Cons [of lib t x xs' y] seriesLoop_outcome_Cons [of lib t y ys' y]
    by simp
next
  assume a: "xs \<noteq> [] \<and> ys \<noteq> []"
  then obtain x xs' y ys' where "xs = x # xs'" and "ys = y # ys'"
    by (cases xs; cases ys) auto
  then have "outcome (seriesLoop lib t xs) = outcome (seriesLoop lib t ys)"
    using seriesLoop_outcome_Cons [of lib t x xs' y] seriesLoop_outcome_Cons [of lib t y ys' y]
    by simp
  then have "outcome (seriesLoop (lib \<lparr> getSeries := Inr ys \<rparr>) t ys)
      = outcome (seriesLoop (lib \<lparr> getSeries := Inr xs \<rparr>) t xs)"
    by (simp only: seriesLoop_getSeries_update)
  then show "outcome (getEpisodePlayback h (lib \<lparr> getSeries := Inr xs \<rparr>) t s e)
           = outcome (getEpisodePlayback h (lib \<lparr> getSeries := Inr ys \<rparr>) t s e)"
    by (intro getEpisodePlayback_via_loop [of _ ys _ xs]) simp_all
qed

theorem empty_series_list_and_loop_witness:
  "getSeries emptyLibrary = Inr []
   \<and> lookupSeriesByTmdbId emptyLibrary 1399 = Inr (Some \<lparr> tvdbId = 121361 \<rparr>)
   \<and> getEpisodePlayback (hostOf fightClubInfo) emptyLibrary 1399 1 1 = ([GetSeries], Inr None)
   \<and> outcome (seriesLoop sampleLibrary 1399 [\<lparr> series_id = 3, series_title = ''Breaking Bad'' \<rparr>])
       = outcome (seriesLoop sampleLibrary 1399
           [\<lparr> series_id = 7, series_title = ''Game of Thrones'' \<rparr>,
            \<lparr> series_id = 3, series_title = ''Breaking Bad'' \<rparr>])
   \<and> outcome (getEpisodePlayback (hostOf fightClubInfo)
         (sampleLibrary \<lparr> getSeries := Inr [\<lparr> series_id = 3, series_title = ''Breaking Bad'' \<rparr>] \<rparr>)
         1399 1 1)
       = outcome (getEpisodePlayback (hostOf fightClubInfo)
         (sampleLibrary \<lparr> getSeries := Inr [\<lparr> series_id = 7, series_title = ''Game of Thrones'' \<rparr>,
            \<lparr> series_id = 3, series_title = ''Breaking Bad'' \<rparr>] \<rparr>)
         1399 1 1)"
proof -
  let ?bb = "\<lparr> series_id = 3, series_title = ''Breaking Bad'' \<rparr>"
  let ?got = "\<lparr> series_id = 7, series_title = ''Game of Thrones'' \<rparr>"
  have h1: "getSeries emptyLibrary = Inr []"
    by (simp add: emptyLibrary_def)
  have h2: "lookupSeriesByTmdbId emptyLibrary 1399 = Inr (Some \<lparr> tvdbId = 121361 \<rparr>)"
    by (simp add: emptyLibrary_def sampleLibrary_def)
  have h3: "[?bb] \<noteq> [] \<and> [?got, ?bb] \<noteq> []"
    by simp
  from empty_series_list_and_loop
    [where lib = emptyLibrary and h = "hostOf fightClubInfo" and t = 1399 and s = 1 and e = 1]
    h1
  have c1: "getEpisodePlayback (hostOf fightClubInfo) emptyLibrary 1399 1 1
      = ([GetSeries], Inr None)"
    by blast
  from empty_series_list_and_loop
    [where lib = sampleLibrary and h = "hostOf fightClubInfo" and t = 1399 and s = 1 and e = 1
       and xs = "[?bb]" and ys = "[?got, ?bb]"] h3
  have c2: "outcome (seriesLoop sampleLibrary 1399 [?bb])
       = outcome (seriesLoop sampleLibrary 1399 [?got, ?bb])
     \<and> outcome (getEpisodePlayback (hostOf fightClubInfo)
         (sampleLibrary \<lparr> getSeries := Inr [?bb] \<rparr>) 1399 1 1)
       = outcome (getEpisodePlayback (hostOf fightClubInfo)
         (sampleLibrary \<lparr> getSeries := Inr [?got, ?bb] \<rparr>) 1399 1 1)"
    by blast
  from h1 h2 c1 c2 show ?thesis by blast
qed

section \<open>URLs\<close>

lemma hexDigit_safe: "hexDigit n \<in> set ''0123456789ABCDEF''"
  unfolding hexDigit_def by (rule nth_mem) simp

lemma hexDigit_component_char: "hexDigit n \<in> uri_component_chars"
  unfolding uri_component_chars_def
  by (rule UnI2, rule list.set_intros(2), rule hexDigit_safe)

lemma percent_component_char: "CHR ''%'' \<in> uri_component_chars"
  unfolding uri_component_chars_def
  by (rule UnI2, rule list.set_intros(1))

lemma encodeChar_safe: "set (encodeChar c) \<subseteq> uri_component_chars"
proof (cases "c \<in> set uri_unreserved")
  case True
  then have "c \<in> uri_component_chars"
    unfolding uri_component_chars_def by (rule UnI1)
  with True show ?thesis by (simp add: encodeChar_def)
next
  case False
  then show ?thesis
    by (simp add: encodeChar_def hexDigit_component_char percent_component_char)
qed

lemma encodeURIComponent_safe: "set (encodeURIComponent x) \<subseteq> uri_component_chars"
  by (induction x) (simp_all add: encodeURIComponent_def encodeChar_safe)

lemma slash_not_safe: "CHR ''/'' \<notin> uri_component_chars"
  by (simp add: uri_component_chars_def uri_unreserved_def)

lemma client_subtitle_urls:
  "map url (map (absolutizeSubtitle apiBase a) (map (withSubtitleUrl fp) subs))
     = map (\<lambda>sub. Some (apiBase @ ''/api/media/subtitle/''
                          @ encodeURIComponent (showInt (st_streamIndex sub) @ '':'' @ fp) @ a))
         subs"
  by (simp add: absolutizeSubtitle_def withSubtitleUrl_def startsWithSlash_def)

text \<open>
  Claim C7, as the code has it. The stream URL built by the server is the endpoint prefix
  followed by \<open>encodeURIComponent\<close> of the file path, and the browser-side service turns
  it and every subtitle URL into the base URL, the endpoint, the percent-encoded path (for
  subtitles, of \<open>streamIndex:path\<close>) and the token parameter. The encoded part consists of
  unreserved characters, \<open>%\<close> and hex digits only, so no \<open>/\<close> of the path occurs in it.
  The playback info itself carries the raw path in its \<open>filePath\<close> field, on the server
  and in the browser.
\<close>

theorem urls_embed_encoded_path:
  assumes "probeFile h fp = Inr (Some (Info info))"
    and "find (\<lambda>s. codec_type s = Video) (streams info) = Some v"
  shows "\<exists>pb cpb. buildPlaybackInfo h fp ttl ty = Inr (Some pb)
      \<and> streamUrl pb
          = (if needsTranscode pb then ''/api/media/transcode/'' else ''/api/media/stream/'')
              @ encodeURIComponent fp
      \<and> client_getMoviePlayback apiBase token pb = Some cpb
      \<and> streamUrl cpb = apiBase @ streamUrl pb @ authParamOf token
      \<and> map url (subtitles cpb)
          = map (\<lambda>sub. Some (apiBase @ ''/api/media/subtitle/''
                   @ encodeURIComponent (showInt (st_streamIndex sub) @ '':'' @ fp)
                   @ authParamOf token))
              (subtitles pb)
      \<and> (\<forall>x. set (encodeURIComponent x) \<subseteq> uri_component_chars)
      \<and> CHR ''/'' \<notin> uri_component_chars
      \<and> CHR ''/'' \<notin> set (encodeURIComponent fp)
      \<and> filePath pb = fp \<and> filePath cpb = fp"
proof -
  obtain pb where pb: "buildPlaybackInfo h fp ttl ty = Inr (Some pb)"
    and f: "found pb" and fp: "filePath pb = fp"
    and su: "streamUrl pb
      = (if needsTranscode pb then ''/api/media/transcode/'' else ''/api/media/stream/'')
          @ encodeURIComponent fp"
    using buildPlaybackInfo_fields [OF assms, of ttl ty] by blast
  from su have sl: "startsWithSlash (streamUrl pb)"
    by (simp add: startsWithSlash_def)
  let ?cpb = "the (client_getMoviePlayback apiBase token pb)"
  have c: "client_getMoviePlayback apiBase token pb = Some ?cpb"
    using f by (simp add: client_getMoviePlayback_def Let_def)
  have c1: "streamUrl ?cpb = apiBase @ streamUrl pb @ authParamOf token"
    using f sl by (simp add: client_getMoviePlayback_def Let_def)
  have c2: "map url (subtitles ?cpb)
          = map (\<lambda>sub. Some (apiBase @ ''/api/media/subtitle/''
                   @ encodeURIComponent (showInt (st_streamIndex sub) @ '':'' @ fp)
                   @ authParamOf token))
              (subtitles pb)"
    using f fp client_subtitle_urls [of apiBase "authParamOf token" fp "subtitles pb"]
    by (simp add: client_getMoviePlayback_def Let_def)
  have c3: "filePath ?cpb = fp"
    using f fp by (simp add: client_getMoviePlayback_def Let_def)
  have s: "CHR ''/'' \<notin> set (encodeURIComponent fp)"
    using encodeURIComponent_safe [of fp] slash_not_safe by blast
  show ?thesis
    apply (rule exI [of _ pb], rule exI [of _ ?cpb])
    apply (intro conjI allI)
    apply (rule pb su c c1 c2 encodeURIComponent_safe slash_not_safe s fp c3)+
    done
qed

lemma encode_fightClubPath:
  "encodeURIComponent fightClubPath
     = ''%2Fdata%2Fmovies%2FFight%20Club%20(1999)%2FFight%20Club.mkv''"
  by (simp add: encodeURIComponent_def encodeChar_def uri_unreserved_def hexDigit_def
      fightClubPath_def)

theorem urls_embed_encoded_path_witness:
  "probeFile (hostOf fightClubInfo) fightClubPath = Inr (Some (Info fightClubInfo))
   \<and> find (\<lambda>s. codec_type s = Video) (streams fightClubInfo)
       = Some ((mkStream 0 Video ''h264'') \<lparr> width := Some 1920, height := Some 1080 \<rparr>)
   \<and> (\<exists>pb cpb.
         buildPlaybackInfo (hostOf fightClubInfo) fightClubPath ''Fight Club'' movie = Inr (Some pb)
         \<and> client_getMoviePlayback ''http://localhost:3001'' (Some ''tok'') pb = Some cpb
         \<and> streamUrl cpb = ''http://localhost:3001'' @ streamUrl pb @ ''?token=tok''
         \<and> filePath cpb = fightClubPath)
   \<and> encodeURIComponent fightClubPath
       = ''%2Fdata%2Fmovies%2FFight%20Club%20(1999)%2FFight%20Club.mkv''
   \<and> CHR ''/'' \<notin> set (encodeURIComponent fightClubPath)"
proof -
  have h1: "probeFile (hostOf fightClubInfo) fightClubPath = Inr (Some (Info fightClubInfo))"
    by (rule probeFile_hostOf)
  note h2 = video_fightClub
  have a: "authParamOf (Some ''tok'') = ''?token=tok''"
    by (simp add: authParamOf_def encodeURIComponent_def encodeChar_def uri_unreserved_def)
  from urls_embed_encoded_path
    [OF h1 h2, of "''Fight Club''" movie "''http://localhost:3001''" "Some ''tok''"]
  obtain pb cpb where
    "buildPlaybackInfo (hostOf fightClubInfo) fightClubPath ''Fight Club'' movie = Inr (Some pb)"
    and "client_getMoviePlayback ''http://localhost:3001'' (Some ''tok'') pb = Some cpb"
    and "streamUrl cpb = ''http://localhost:3001'' @ streamUrl pb @ authParamOf (Some ''tok'')"
    and "filePath cpb = fightClubPath"
    and "CHR ''/'' \<notin> set (encodeURIComponent fightClubPath)"
    by blast
  with h1 h2 a encode_fightClubPath show ?thesis
    by (intro conjI exI [of _ pb] exI [of _ cpb]) simp_all
qed

text \<open>
  Claim C7 as written says that the playback info does not expose the raw path. Its
  \<open>filePath\<close> field is the raw path, in the server's reply and in what the browser-side
  service returns, and it differs from the encoded form.
\<close>

theorem raw_path_counterexample:
  "map_sum id (map_option filePath)
     (buildPlaybackInfo (hostOf fightClubInfo) fightClubPath ''Fight Club'' movie)
     = Inr (Some ''/data/movies/Fight Club (1999)/Fight Club.mkv'')
   \<and> map_sum id
       (\<lambda>r. map_option filePath
              (Option.bind r (client_getMoviePlayback ''http://localhost:3001'' None)))
       (buildPlaybackInfo (hostOf fightClubInfo) fightClubPath ''Fight Club'' movie)
     = Inr (Some ''/data/movies/Fight Club (1999)/Fight Club.mkv'')
   \<and> encodeURIComponent ''/data/movies/Fight Club (1999)/Fight Club.mkv''
       \<noteq> ''/data/movies/Fight Club (1999)/Fight Club.mkv''"
  by (simp add: buildPlaybackInfo_def probeFile_hostOf fightClubInfo_def mkStream_def Let_def
      client_getMoviePlayback_def fightClubPath_def encodeURIComponent_def encodeChar_def
      uri_unreserved_def hexDigit_def)

end
